theory Spec2Isabelle
  imports Main "HOL-Library.Word"
begin

section \<open>The build-time constants of \<open>runtime/globals.h\<close>\<close>

text \<open>
  The header \<open>runtime/globals.h\<close> of ART has no run-time state: every name it declares is a
  \<open>static constexpr\<close> value whose initialiser is chosen by the preprocessor, and one inline
  function. The model below follows the header from top to bottom.

  \<^item> The preprocessor environment is the set of macro names that are defined when the body of
    the header is read (after its two \<open>#include\<close> lines). \<open>#if defined(M)\<close> and \<open>#ifdef M\<close> are
    membership tests on that set.
  \<^item> A constant whose initialiser depends on the environment is a function of the environment;
    a constant with a literal initialiser is a plain definition.
  \<^item> \<open>#error\<close> stops the translation unit: the block that contains the three \<open>#error\<close>
    directives returns a sum, \<open>Inl\<close> carrying the diagnostic.
  \<^item> \<open>size_t\<close> constants are natural numbers (all of them are far below \<open>2 ^ 32\<close>, so they
    have the same value under a 32-bit and a 64-bit \<open>size_t\<close>); the \<open>int\<close> constant \<open>kPageSize\<close>
    is an integer; \<open>1u\<close> is a 32-bit \<open>unsigned int\<close>; \<open>uintptr_t\<close> is a machine word whose width
    is the pointer width of the platform.
\<close>

subsection \<open>The preprocessor environment\<close>

type_synonym macro = string
type_synonym macros = "macro set"

definition defined :: "macro \<Rightarrow> macros \<Rightarrow> bool" where
  "defined m D = (m \<in> D)"

abbreviation NDEBUG :: macro where "NDEBUG \<equiv> ''NDEBUG''"
abbreviation ART_TARGET :: macro where "ART_TARGET \<equiv> ''ART_TARGET''"
abbreviation ART_TARGET_LINUX :: macro where "ART_TARGET_LINUX \<equiv> ''ART_TARGET_LINUX''"
abbreviation ART_TARGET_ANDROID :: macro where "ART_TARGET_ANDROID \<equiv> ''ART_TARGET_ANDROID''"
abbreviation USE_BAKER_READ_BARRIER :: macro where
  "USE_BAKER_READ_BARRIER \<equiv> ''USE_BAKER_READ_BARRIER''"
abbreviation USE_BROOKS_READ_BARRIER :: macro where
  "USE_BROOKS_READ_BARRIER \<equiv> ''USE_BROOKS_READ_BARRIER''"
abbreviation USE_TABLE_LOOKUP_READ_BARRIER :: macro where
  "USE_TABLE_LOOKUP_READ_BARRIER \<equiv> ''USE_TABLE_LOOKUP_READ_BARRIER''"
abbreviation USE_HEAP_POISONING :: macro where "USE_HEAP_POISONING \<equiv> ''USE_HEAP_POISONING''"
abbreviation ART_USE_TLAB :: macro where "ART_USE_TLAB \<equiv> ''ART_USE_TLAB''"
abbreviation ART_ENABLE_VDEX :: macro where "ART_ENABLE_VDEX \<equiv> ''ART_ENABLE_VDEX''"

text \<open>The compiler's predefined macro \<open>__linux__\<close>; the name is kept in the string.\<close>

abbreviation linux_macro :: macro where "linux_macro \<equiv> ''__linux__''"

subsection \<open>Runtime sizes, page size and the implicit null check\<close>

definition KB :: nat where "KB = 1024"
definition MB :: nat where "MB = KB * KB"
definition GB :: nat where "GB = KB * KB * KB"

definition kBitsPerByte :: nat where "kBitsPerByte = 8"
definition kBitsPerByteLog2 :: nat where "kBitsPerByteLog2 = 3"

definition kStackAlignment :: nat where "kStackAlignment = 16"

text \<open>\<open>static constexpr int kPageSize = 4096;\<close>\<close>

definition kPageSize :: int where "kPageSize = 4096"

text \<open>
  \<open>static inline bool CanDoImplicitNullCheckOn(uintptr_t offset) { return offset < kPageSize; }\<close>

  The operands of \<open><\<close> are a \<open>uintptr_t\<close> and an \<open>int\<close>. The usual arithmetic conversions turn
  the \<open>int\<close> into a \<open>uintptr_t\<close> (reduction modulo \<open>2 ^ width\<close>, which is \<open>word_of_int\<close>), and
  the comparison is unsigned. The width of \<open>uintptr_t\<close> is the type parameter: 32 on the 32-bit
  targets of ART and 64 on the 64-bit ones.
\<close>

type_synonym 'w uintptr_t = "'w word"

definition CanDoImplicitNullCheckOn :: "'w::len uintptr_t \<Rightarrow> bool" where
  "CanDoImplicitNullCheckOn offset = (offset < word_of_int kPageSize)"

text \<open>
  \<open>kObjectAlignment = 1u << kObjectAlignmentShift\<close>: the shift is computed on the 32-bit
  \<open>unsigned int\<close> \<open>1u\<close> and the result is then widened to \<open>size_t\<close>.
  \<open>kLargeObjectAlignment = kPageSize\<close> converts the \<open>int\<close> to \<open>size_t\<close>.
\<close>

definition kObjectAlignmentShift :: nat where "kObjectAlignmentShift = 3"

definition kObjectAlignment :: nat where
  "kObjectAlignment = unat (push_bit kObjectAlignmentShift (1 :: 32 word))"

definition kLargeObjectAlignment :: nat where
  "kLargeObjectAlignment = nat kPageSize"

subsection \<open>Debug and target builds\<close>

definition kIsDebugBuild :: "macros \<Rightarrow> bool" where
  "kIsDebugBuild D = (if defined NDEBUG D then False else True)"

text \<open>A diagnostic of an \<open>#error\<close> directive.\<close>

datatype preproc_error = Error string

text \<open>The two constants that the block of lines 67 to 86 declares when it does not fail.\<close>

record target =
  kIsTargetBuild :: bool
  kIsTargetLinux :: bool

text \<open>
  The block \<open>#if defined(ART_TARGET) ... #else ... #endif\<close>. Inside each branch the tests are an
  \<open>#if\<close>/\<open>#elif\<close>/\<open>#else\<close> chain, so the first test that holds decides.
\<close>

definition target_section :: "macros \<Rightarrow> preproc_error + target" where
  "target_section D =
     (if defined ART_TARGET D then
        (if defined ART_TARGET_LINUX D then
           Inr \<lparr>kIsTargetBuild = True, kIsTargetLinux = True\<rparr>
         else if defined ART_TARGET_ANDROID D then
           Inr \<lparr>kIsTargetBuild = True, kIsTargetLinux = False\<rparr>
         else
           Inl (Error ''Either ART_TARGET_LINUX or ART_TARGET_ANDROID needs to be defined for target builds.''))
      else
        (if defined ART_TARGET_LINUX D then
           Inl (Error ''ART_TARGET_LINUX defined for host build.'')
         else if defined ART_TARGET_ANDROID D then
           Inl (Error ''ART_TARGET_ANDROID defined for host build.'')
         else
           Inr \<lparr>kIsTargetBuild = False, kIsTargetLinux = False\<rparr>))"

text \<open>\<open>#if !defined(ART_TARGET)\<close> true \<open>#else\<close> false\<close>

definition kHostStaticBuildEnabled :: "macros \<Rightarrow> bool" where
  "kHostStaticBuildEnabled D = (if \<not> defined ART_TARGET D then True else False)"

subsection \<open>Garbage collector constants\<close>

definition kMovingCollector :: bool where
  "kMovingCollector = True"

definition kMarkCompactSupport :: bool where
  "kMarkCompactSupport = (False \<and> kMovingCollector)"

definition kMovingClasses :: bool where
  "kMovingClasses = (\<not> kMarkCompactSupport)"

definition kEmbedClassInCode :: bool where
  "kEmbedClassInCode = True"

subsection \<open>Read barriers\<close>

definition kUseBakerReadBarrier :: "macros \<Rightarrow> bool" where
  "kUseBakerReadBarrier D = (if defined USE_BAKER_READ_BARRIER D then True else False)"

definition kUseBrooksReadBarrier :: "macros \<Rightarrow> bool" where
  "kUseBrooksReadBarrier D = (if defined USE_BROOKS_READ_BARRIER D then True else False)"

definition kUseTableLookupReadBarrier :: "macros \<Rightarrow> bool" where
  "kUseTableLookupReadBarrier D =
     (if defined USE_TABLE_LOOKUP_READ_BARRIER D then True else False)"

definition kUseBakerOrBrooksReadBarrier :: "macros \<Rightarrow> bool" where
  "kUseBakerOrBrooksReadBarrier D = (kUseBakerReadBarrier D \<or> kUseBrooksReadBarrier D)"

definition kUseReadBarrier :: "macros \<Rightarrow> bool" where
  "kUseReadBarrier D =
     (kUseBakerReadBarrier D \<or> kUseBrooksReadBarrier D \<or> kUseTableLookupReadBarrier D)"

definition kForceReadBarrier :: bool where
  "kForceReadBarrier = False"

definition kEmitCompilerReadBarrier :: "macros \<Rightarrow> bool" where
  "kEmitCompilerReadBarrier D = (kForceReadBarrier \<or> kUseReadBarrier D)"

subsection \<open>Heap poisoning, TLAB, tracing clock, vdex, reference size\<close>

definition kPoisonHeapReferences :: "macros \<Rightarrow> bool" where
  "kPoisonHeapReferences D = (if defined USE_HEAP_POISONING D then True else False)"

definition kUseTlab :: "macros \<Rightarrow> bool" where
  "kUseTlab D = (if defined ART_USE_TLAB D then True else False)"

datatype TraceClockSource = kThreadCpu | kWall | kDual

definition kDefaultTraceClockSource :: "macros \<Rightarrow> TraceClockSource" where
  "kDefaultTraceClockSource D = (if defined linux_macro D then kDual else kWall)"

definition kDefaultMustRelocate :: bool where
  "kDefaultMustRelocate = False"

definition kArm32QuickCodeUseSoftFloat :: bool where
  "kArm32QuickCodeUseSoftFloat = False"

definition kIsVdexEnabled :: "macros \<Rightarrow> bool" where
  "kIsVdexEnabled D = (if defined ART_ENABLE_VDEX D then True else False)"

text \<open>
  \<open>sizeof(uint32_t)\<close>: \<open>uint32_t\<close> has exactly 32 bits and no padding, and a byte of every ART
  platform has \<open>kBitsPerByte = 8\<close> bits.
\<close>

definition sizeof_uint32_t :: nat where
  "sizeof_uint32_t = 32 div 8"

definition kHeapReferenceSize :: nat where
  "kHeapReferenceSize = sizeof_uint32_t"

section \<open>Properties\<close>

subsection \<open>The implicit null check\<close>

lemma uint_kPageSize:
  assumes w: "12 < LENGTH('w::len)"
  shows "uint (word_of_int kPageSize :: 'w word) = kPageSize"
proof -
  have "(2::nat) ^ 12 < 2 ^ LENGTH('w)"
    using w by (intro power_strict_increasing) simp_all
  then have "(4096::nat) mod 2 ^ LENGTH('w) = 4096"
    by simp
  then show ?thesis
    by (simp add: kPageSize_def uint_word_of_int take_bit_eq_mod)
qed

lemma CanDoImplicitNullCheckOn_wide:
  "12 < LENGTH('w::len) \<Longrightarrow>
     CanDoImplicitNullCheckOn (offset :: 'w word) = (uint offset < kPageSize)"
  by (simp add: CanDoImplicitNullCheckOn_def word_less_def uint_kPageSize)

text \<open>
  Claim C1. \<open>CanDoImplicitNullCheckOn\<close> has no failing path and is defined on every
  \<open>uintptr_t\<close>; both under a 32-bit and under a 64-bit \<open>uintptr_t\<close> it answers true exactly
  for the offsets whose unsigned value is below the page size. It is true at 0 and at 4095,
  false at 4096, at \<open>UINT_MAX = 2 ^ 32 - 1\<close> and at the largest 64-bit value.
\<close>

theorem CanDoImplicitNullCheckOn_iff_below_page:
  "(\<forall>offset :: 32 word. CanDoImplicitNullCheckOn offset = (uint offset < kPageSize)) \<and>
   (\<forall>offset :: 64 word. CanDoImplicitNullCheckOn offset = (uint offset < kPageSize)) \<and>
   kPageSize = 4096 \<and>
   CanDoImplicitNullCheckOn (0 :: 32 word) \<and>
   CanDoImplicitNullCheckOn (4095 :: 32 word) \<and>
   \<not> CanDoImplicitNullCheckOn (4096 :: 32 word) \<and>
   \<not> CanDoImplicitNullCheckOn (4294967295 :: 32 word) \<and>
   CanDoImplicitNullCheckOn (0 :: 64 word) \<and>
   CanDoImplicitNullCheckOn (4095 :: 64 word) \<and>
   \<not> CanDoImplicitNullCheckOn (4096 :: 64 word) \<and>
   \<not> CanDoImplicitNullCheckOn (4294967295 :: 64 word) \<and>
   \<not> CanDoImplicitNullCheckOn (18446744073709551615 :: 64 word)"
proof -
  have iff32: "CanDoImplicitNullCheckOn offset = (uint offset < kPageSize)"
    for offset :: "32 word"
    by (rule CanDoImplicitNullCheckOn_wide) simp
  have iff64: "CanDoImplicitNullCheckOn offset = (uint offset < kPageSize)"
    for offset :: "64 word"
    by (rule CanDoImplicitNullCheckOn_wide) simp
  have page: "kPageSize = 4096"
    by (simp add: kPageSize_def)
  show ?thesis
    unfolding iff32 iff64 by (simp add: page)
qed

subsection \<open>Layout constants\<close>

text \<open>
  Claim C6. The object alignment is 2 raised to the alignment shift, the shift is 3 and the
  alignment is 8, a power of two; the large-object alignment is the page size, 4096, and a
  multiple of the object alignment; a heap reference has 4 bytes.
\<close>

theorem layout_constants:
  "kObjectAlignment = 2 ^ kObjectAlignmentShift \<and>
   kObjectAlignmentShift = 3 \<and>
   kObjectAlignment = 8 \<and>
   (\<exists>k. kObjectAlignment = 2 ^ k) \<and>
   int kLargeObjectAlignment = kPageSize \<and>
   kLargeObjectAlignment = 4096 \<and>
   kObjectAlignment dvd kLargeObjectAlignment \<and>
   kHeapReferenceSize = 4"
proof -
  have shift: "kObjectAlignmentShift = 3"
    by (simp add: kObjectAlignmentShift_def)
  have align: "kObjectAlignment = 8"
    by (simp add: kObjectAlignment_def shift)
  have pow: "kObjectAlignment = 2 ^ kObjectAlignmentShift"
    by (simp add: align shift)
  have large: "kLargeObjectAlignment = 4096"
    by (simp add: kLargeObjectAlignment_def kPageSize_def)
  have "(8::nat) dvd 4096"
    by simp
  then have mult: "kObjectAlignment dvd kLargeObjectAlignment"
    by (simp only: align large)
  have ref: "kHeapReferenceSize = 4"
    by (simp add: kHeapReferenceSize_def sizeof_uint32_t_def)
  from pow have "\<exists>k. kObjectAlignment = 2 ^ k" ..
  with pow shift align large mult ref show ?thesis
    by (simp add: kPageSize_def)
qed

subsection \<open>Read barriers\<close>

text \<open>
  Claim C2. For every set of defined macros, \<open>kUseReadBarrier\<close> is true exactly when at least
  one of the three read-barrier toggles is true: the three constants \<open>kUseBakerReadBarrier\<close>,
  \<open>kUseBrooksReadBarrier\<close>, \<open>kUseTableLookupReadBarrier\<close>, each of which is true exactly when
  its macro is defined.
\<close>

theorem kUseReadBarrier_iff_some_kind:
  "kUseReadBarrier D =
     (kUseBakerReadBarrier D \<or> kUseBrooksReadBarrier D \<or> kUseTableLookupReadBarrier D) \<and>
   kUseReadBarrier D =
     (defined USE_BAKER_READ_BARRIER D \<or> defined USE_BROOKS_READ_BARRIER D \<or>
      defined USE_TABLE_LOOKUP_READ_BARRIER D)"
  by (simp add: kUseReadBarrier_def kUseBakerReadBarrier_def kUseBrooksReadBarrier_def
      kUseTableLookupReadBarrier_def)

text \<open>
  Claim C3. For every set of defined macros, \<open>kEmitCompilerReadBarrier\<close> is true exactly when
  \<open>kForceReadBarrier\<close> is set or \<open>kUseReadBarrier\<close> is true; so it is true whenever a read
  barrier is in use.
\<close>

theorem kEmitCompilerReadBarrier_iff_forced_or_used:
  "kEmitCompilerReadBarrier D = (kForceReadBarrier \<or> kUseReadBarrier D) \<and>
   (kUseReadBarrier D \<longrightarrow> kEmitCompilerReadBarrier D)"
  by (simp add: kEmitCompilerReadBarrier_def)

theorem kEmitCompilerReadBarrier_baker_witness:
  "kUseReadBarrier {USE_BAKER_READ_BARRIER} \<and>
   kEmitCompilerReadBarrier {USE_BAKER_READ_BARRIER}"
proof -
  have used: "kUseReadBarrier {USE_BAKER_READ_BARRIER}"
    by (simp add: kUseReadBarrier_def kUseBakerReadBarrier_def defined_def)
  from kEmitCompilerReadBarrier_iff_forced_or_used [of "{USE_BAKER_READ_BARRIER}"] used
  show ?thesis by blast
qed

text \<open>
  Claim C9. \<open>kForceReadBarrier\<close> is the literal false, so for every set of defined macros
  \<open>kEmitCompilerReadBarrier\<close> has the value of \<open>kUseReadBarrier\<close>: the override changes nothing.
\<close>

theorem kEmitCompilerReadBarrier_eq_kUseReadBarrier:
  "kForceReadBarrier = False \<and> kEmitCompilerReadBarrier D = kUseReadBarrier D"
  by (simp add: kEmitCompilerReadBarrier_def kForceReadBarrier_def)

subsection \<open>Garbage collector constants\<close>

text \<open>
  Claim C5. \<open>kMarkCompactSupport\<close> implies \<open>kMovingCollector\<close>, and \<open>kMovingClasses\<close> is true
  exactly when \<open>kMarkCompactSupport\<close> is false. The three constants have literal initialisers,
  so they are the same in every configuration. The proof of the implication reads only the
  shape \<open>_ && kMovingCollector\<close> of the initialiser, not the values of its operands.
\<close>

theorem kMarkCompactSupport_implies_kMovingCollector:
  "(kMarkCompactSupport \<longrightarrow> kMovingCollector) \<and>
   kMovingClasses = (\<not> kMarkCompactSupport)"
proof
  show "kMarkCompactSupport \<longrightarrow> kMovingCollector"
    unfolding kMarkCompactSupport_def by (rule impI) (erule conjunct2)
  show "kMovingClasses = (\<not> kMarkCompactSupport)"
    by (fact kMovingClasses_def)
qed

text \<open>
  The values at which the statement above is instantiated by the header: the consequent
  \<open>kMovingCollector\<close> holds, \<open>kMarkCompactSupport\<close> is false and \<open>kMovingClasses\<close> is true.
\<close>

theorem kMarkCompactSupport_implies_kMovingCollector_witness:
  "kMovingCollector \<and> \<not> kMarkCompactSupport \<and> kMovingClasses"
proof -
  have off: "\<not> kMarkCompactSupport"
    by (simp add: kMarkCompactSupport_def)
  have "kMovingClasses = (\<not> kMarkCompactSupport)"
    using kMarkCompactSupport_implies_kMovingCollector by (rule conjunct2)
  with off have "kMovingClasses" by simp
  moreover have "kMovingCollector"
    by (simp add: kMovingCollector_def)
  ultimately show ?thesis using off by simp
qed

text \<open>
  Claim C10. \<open>kMarkCompactSupport\<close> is false in every configuration: its initialiser is the
  literal false in conjunction with \<open>kMovingCollector\<close>, and the conjunction has the same value
  whatever value stands in the place of \<open>kMovingCollector\<close>. Hence \<open>kMovingClasses\<close> is true.
\<close>

theorem kMarkCompactSupport_false:
  "\<not> kMarkCompactSupport \<and>
   kMarkCompactSupport = (False \<and> kMovingCollector) \<and>
   (\<forall>movingCollector. (False \<and> movingCollector) = kMarkCompactSupport) \<and>
   kMovingClasses"
  by (simp add: kMarkCompactSupport_def kMovingClasses_def)

subsection \<open>Target validation\<close>

text \<open>
  Claim C4, as the code has it. The block fails exactly when \<open>ART_TARGET\<close> is defined and
  neither \<open>ART_TARGET_LINUX\<close> nor \<open>ART_TARGET_ANDROID\<close> is, or \<open>ART_TARGET\<close> is not defined and
  one of the two is. In every other environment it declares one pair of constants:
  \<open>kIsTargetBuild\<close> tells whether \<open>ART_TARGET\<close> is defined and \<open>kIsTargetLinux\<close> whether
  \<open>ART_TARGET_LINUX\<close> is. That covers a target build with both sub-flags: \<open>ART_TARGET_LINUX\<close> is
  tested first and the build is a target Linux build.
\<close>

theorem target_section_fails_iff:
  "(isl (target_section D) \<longleftrightarrow>
      (defined ART_TARGET D \<and>
         \<not> defined ART_TARGET_LINUX D \<and> \<not> defined ART_TARGET_ANDROID D) \<or>
      (\<not> defined ART_TARGET D \<and>
         (defined ART_TARGET_LINUX D \<or> defined ART_TARGET_ANDROID D))) \<and>
   (\<not> isl (target_section D) \<longrightarrow>
      target_section D =
        Inr \<lparr>kIsTargetBuild = defined ART_TARGET D,
             kIsTargetLinux = defined ART_TARGET_LINUX D\<rparr>)"
  by (simp add: target_section_def)

theorem target_section_fails_iff_witness:
  "\<not> isl (target_section {ART_TARGET, ART_TARGET_ANDROID}) \<and>
   target_section {ART_TARGET, ART_TARGET_ANDROID} =
     Inr \<lparr>kIsTargetBuild = True, kIsTargetLinux = False\<rparr> \<and>
   isl (target_section {ART_TARGET}) \<and>
   isl (target_section {ART_TARGET_ANDROID})"
proof -
  let ?D = "{ART_TARGET, ART_TARGET_ANDROID}"
  have flags: "defined ART_TARGET ?D" "\<not> defined ART_TARGET_LINUX ?D"
    "defined ART_TARGET_ANDROID ?D"
    by (simp_all add: defined_def)
  from target_section_fails_iff [of ?D] flags
  have ok: "\<not> isl (target_section ?D)" by blast
  with target_section_fails_iff [of ?D] flags
  have val: "target_section ?D = Inr \<lparr>kIsTargetBuild = True, kIsTargetLinux = False\<rparr>"
    by simp
  have "defined ART_TARGET {ART_TARGET}" "\<not> defined ART_TARGET_LINUX {ART_TARGET}"
    "\<not> defined ART_TARGET_ANDROID {ART_TARGET}"
    by (simp_all add: defined_def)
  with target_section_fails_iff [of "{ART_TARGET}"]
  have neither: "isl (target_section {ART_TARGET})" by blast
  have "\<not> defined ART_TARGET {ART_TARGET_ANDROID}"
    "defined ART_TARGET_ANDROID {ART_TARGET_ANDROID}"
    by (simp_all add: defined_def)
  with target_section_fails_iff [of "{ART_TARGET_ANDROID}"]
  have host: "isl (target_section {ART_TARGET_ANDROID})" by blast
  from ok val neither host show ?thesis by simp
qed

text \<open>
  The claim as written asks for a failure when \<open>ART_TARGET\<close> and both sub-flags are defined.
  In that environment the first test of the chain, \<open>defined(ART_TARGET_LINUX)\<close>, holds and no
  \<open>#error\<close> is reached.
\<close>

theorem target_section_both_subflags_counterexample:
  "defined ART_TARGET {ART_TARGET, ART_TARGET_LINUX, ART_TARGET_ANDROID} \<and>
   defined ART_TARGET_LINUX {ART_TARGET, ART_TARGET_LINUX, ART_TARGET_ANDROID} \<and>
   defined ART_TARGET_ANDROID {ART_TARGET, ART_TARGET_LINUX, ART_TARGET_ANDROID} \<and>
   target_section {ART_TARGET, ART_TARGET_LINUX, ART_TARGET_ANDROID} =
     Inr \<lparr>kIsTargetBuild = True, kIsTargetLinux = True\<rparr>"
  by (simp add: target_section_def defined_def)

subsection \<open>Static host binaries\<close>

text \<open>
  Claim C7. \<open>kHostStaticBuildEnabled\<close> is true exactly for a host build: exactly when
  \<open>ART_TARGET\<close> is not defined, which for every environment that passes the target block is
  exactly when \<open>kIsTargetBuild\<close> is false. No other macro has a say: defining or removing any
  macro other than \<open>ART_TARGET\<close> leaves the value as it is, so a host build reports true with
  a static-binary toggle on, and a target build reports false with it on or off.
\<close>

theorem kHostStaticBuildEnabled_iff_host:
  "kHostStaticBuildEnabled D = (\<not> defined ART_TARGET D) \<and>
   (\<forall>t. target_section D = Inr t \<longrightarrow> kHostStaticBuildEnabled D = (\<not> kIsTargetBuild t)) \<and>
   (\<forall>m. m \<noteq> ART_TARGET \<longrightarrow>
      kHostStaticBuildEnabled (insert m D) = kHostStaticBuildEnabled D \<and>
      kHostStaticBuildEnabled (D - {m}) = kHostStaticBuildEnabled D)"
proof (intro conjI allI impI)
  show "kHostStaticBuildEnabled D = (\<not> defined ART_TARGET D)"
    by (simp add: kHostStaticBuildEnabled_def)
next
  fix t
  assume "target_section D = Inr t"
  then have "kIsTargetBuild t = defined ART_TARGET D"
    by (auto simp: target_section_def split: if_splits)
  then show "kHostStaticBuildEnabled D = (\<not> kIsTargetBuild t)"
    by (simp add: kHostStaticBuildEnabled_def)
next
  fix m :: macro
  assume "m \<noteq> ART_TARGET"
  then show "kHostStaticBuildEnabled (insert m D) = kHostStaticBuildEnabled D"
    by (auto simp: kHostStaticBuildEnabled_def defined_def)
next
  fix m :: macro
  assume "m \<noteq> ART_TARGET"
  then show "kHostStaticBuildEnabled (D - {m}) = kHostStaticBuildEnabled D"
    by (auto simp: kHostStaticBuildEnabled_def defined_def)
qed

theorem kHostStaticBuildEnabled_iff_host_witness:
  "target_section {} = Inr \<lparr>kIsTargetBuild = False, kIsTargetLinux = False\<rparr> \<and>
   kHostStaticBuildEnabled {} \<and>
   kHostStaticBuildEnabled {''ART_BUILD_HOST_STATIC''} \<and>
   target_section {ART_TARGET, ART_TARGET_ANDROID} =
     Inr \<lparr>kIsTargetBuild = True, kIsTargetLinux = False\<rparr> \<and>
   \<not> kHostStaticBuildEnabled {ART_TARGET, ART_TARGET_ANDROID} \<and>
   \<not> kHostStaticBuildEnabled {''ART_BUILD_HOST_STATIC'', ART_TARGET, ART_TARGET_ANDROID}"
proof -
  let ?host = "{} :: macros"
  let ?device = "{ART_TARGET, ART_TARGET_ANDROID}"
  let ?toggle = "''ART_BUILD_HOST_STATIC''"
  have other: "?toggle \<noteq> ART_TARGET"
    by simp
  note host = kHostStaticBuildEnabled_iff_host [of ?host]
  note device = kHostStaticBuildEnabled_iff_host [of ?device]
  have th: "target_section ?host = Inr \<lparr>kIsTargetBuild = False, kIsTargetLinux = False\<rparr>"
    by (simp add: target_section_def defined_def)
  have "kHostStaticBuildEnabled ?host =
        (\<not> kIsTargetBuild \<lparr>kIsTargetBuild = False, kIsTargetLinux = False\<rparr>)"
    using host [THEN conjunct2, THEN conjunct1, rule_format, OF th] .
  then have h: "kHostStaticBuildEnabled ?host"
    by simp
  have "kHostStaticBuildEnabled (insert ?toggle ?host) = kHostStaticBuildEnabled ?host"
    using host [THEN conjunct2, THEN conjunct2, rule_format, OF other] by (rule conjunct1)
  with h have h': "kHostStaticBuildEnabled {?toggle}"
    by simp
  have td: "target_section ?device = Inr \<lparr>kIsTargetBuild = True, kIsTargetLinux = False\<rparr>"
    by (simp add: target_section_def defined_def)
  have "kHostStaticBuildEnabled ?device =
        (\<not> kIsTargetBuild \<lparr>kIsTargetBuild = True, kIsTargetLinux = False\<rparr>)"
    using device [THEN conjunct2, THEN conjunct1, rule_format, OF td] .
  then have d: "\<not> kHostStaticBuildEnabled ?device"
    by simp
  have "kHostStaticBuildEnabled (insert ?toggle ?device) = kHostStaticBuildEnabled ?device"
    using device [THEN conjunct2, THEN conjunct2, rule_format, OF other] by (rule conjunct1)
  with d have d': "\<not> kHostStaticBuildEnabled (insert ?toggle ?device)"
    by simp
  from th h h' td d d' show ?thesis
    by (intro conjI)
qed

subsection \<open>Tracing clock\<close>

text \<open>
  Claim C8. \<open>kDefaultTraceClockSource\<close> is \<open>kDual\<close> when \<open>__linux__\<close> is defined and \<open>kWall\<close>
  otherwise; it is one of the three enumerators; and two environments that agree on
  \<open>__linux__\<close> give the same clock, whatever else they define.
\<close>

theorem kDefaultTraceClockSource_by_linux:
  "kDefaultTraceClockSource D = (if defined linux_macro D then kDual else kWall) \<and>
   kDefaultTraceClockSource D \<in> {kThreadCpu, kWall, kDual} \<and>
   (\<forall>D'. defined linux_macro D' = defined linux_macro D \<longrightarrow>
      kDefaultTraceClockSource D' = kDefaultTraceClockSource D)"
  by (simp add: kDefaultTraceClockSource_def)

theorem kDefaultTraceClockSource_by_linux_witness:
  "kDefaultTraceClockSource {linux_macro} = kDual \<and>
   kDefaultTraceClockSource {linux_macro, ART_TARGET, ART_TARGET_ANDROID} = kDual \<and>
   kDefaultTraceClockSource {} = kWall \<and>
   kDefaultTraceClockSource {NDEBUG} = kWall"
proof -
  have l: "defined linux_macro {linux_macro}"
    and l': "defined linux_macro {linux_macro, ART_TARGET, ART_TARGET_ANDROID}"
    and n: "\<not> defined linux_macro {}"
    and n': "\<not> defined linux_macro {NDEBUG}"
    by (simp_all add: defined_def)
  from kDefaultTraceClockSource_by_linux [of "{linux_macro}"] l
  have a: "kDefaultTraceClockSource {linux_macro} = kDual"
    by simp
  from kDefaultTraceClockSource_by_linux [of "{linux_macro}"] l l'
  have "kDefaultTraceClockSource {linux_macro, ART_TARGET, ART_TARGET_ANDROID} =
        kDefaultTraceClockSource {linux_macro}"
    by blast
  with a have b: "kDefaultTraceClockSource {linux_macro, ART_TARGET, ART_TARGET_ANDROID} = kDual"
    by simp
  from kDefaultTraceClockSource_by_linux [of "{}"] n
  have c: "kDefaultTraceClockSource {} = kWall"
    by simp
  from kDefaultTraceClockSource_by_linux [of "{}"] n n'
  have "kDefaultTraceClockSource {NDEBUG} = kDefaultTraceClockSource {}"
    by blast
  with c have d: "kDefaultTraceClockSource {NDEBUG} = kWall"
    by simp
  from a b c d show ?thesis
    by simp
qed

end
